theory Spec2Isabelle
  imports Complex_Main
begin

section \<open>QuantumLink backend: the HTTP gateway of \<^verbatim>\<open>api/index.js\<close>\<close>

text \<open>
  The gateway registers its routes on an Express application and answers each request
  with one parameterised query against a PostgreSQL pool. The handlers are embedded as
  state-passing functions over a \<open>world\<close>: the datastore behind the pool, the list of
  queries sent through the pool, and the lines written with \<^verbatim>\<open>console.error\<close>.
  A JavaScript exception is a value of \<open>js_error\<close>; each handler is a \<open>try\<close> part, which may
  end in an exception, and the \<open>catch\<close> part around it.
\<close>

subsection \<open>JavaScript values\<close>

text \<open>
  Numbers are the doubles of JavaScript, kept as the rational they denote (both zeros
  are \<open>Finite 0\<close>). A timestamp column arrives as a \<^verbatim>\<open>Date\<close>; it is kept as milliseconds.
  A string is kept as the bytes of its UTF-8 text, which is what the driver sends and
  receives; a string with an unpaired surrogate has no such text and is left out.
\<close>

datatype jsnum = NaN | PosInfinity | NegInfinity | Finite rat

datatype jsval =
    JUndefined
  | JNull
  | JBool bool
  | JNumber jsnum
  | JString string
  | JDate int
  | JArray "jsval list"
  | JObject "(string \<times> jsval) list"

text \<open>Truthiness: the value of \<^verbatim>\<open>!!v\<close>. The handler's \<^verbatim>\<open>!v\<close> is \<open>\<not> truthy v\<close>.\<close>

fun truthy :: "jsval \<Rightarrow> bool" where
  "truthy JUndefined = False"
| "truthy JNull = False"
| "truthy (JBool b) = b"
| "truthy (JNumber n) = (n \<noteq> NaN \<and> n \<noteq> Finite 0)"
| "truthy (JString s) = (s \<noteq> [])"
| "truthy (JDate t) = True"
| "truthy (JArray xs) = True"
| "truthy (JObject fs) = True"

datatype pg_error =
    ConnectionError
  | UndefinedTable string
  | UndefinedColumn string
  | BindError
  | InvalidByteSequence
  | ServerError string

datatype js_error = TypeError | DatabaseError pg_error

text \<open>
  Reading a property, as the destructuring \<^verbatim>\<open>const { k } = v\<close> and the access \<^verbatim>\<open>v.k\<close> do:
  \<^verbatim>\<open>undefined\<close> and \<^verbatim>\<open>null\<close> throw a TypeError, an object yields the field or \<^verbatim>\<open>undefined\<close>.
  The names read by the handlers (\<^verbatim>\<open>externalAccountId\<close>, \<^verbatim>\<open>email\<close>, \<^verbatim>\<open>now\<close>) are no properties
  of a string, number, boolean, date or array, so these yield \<^verbatim>\<open>undefined\<close>.
\<close>

fun get_prop :: "jsval \<Rightarrow> string \<Rightarrow> js_error + jsval" where
  "get_prop JUndefined k = Inl TypeError"
| "get_prop JNull k = Inl TypeError"
| "get_prop (JObject fs) k = Inr (case map_of fs k of Some v \<Rightarrow> v | None \<Rightarrow> JUndefined)"
| "get_prop v k = Inr JUndefined"

text \<open>\<^verbatim>\<open>rows[0]\<close>: the first element, \<^verbatim>\<open>undefined\<close> on an empty array.\<close>

fun first_row :: "jsval list \<Rightarrow> jsval" where
  "first_row [] = JUndefined"
| "first_row (r # rs) = r"

subsection \<open>The datastore behind the pool\<close>

text \<open>
  Modelled from the spec: the datastore and the driver that reaches it (PostgreSQL behind
  node-postgres) are no code of the repository. The spec gives their contract as
  "acquire-and-query(sqlText, positionalParams) -> ordered sequence of rows", under which
  "any network/auth/query error surfaces as a single generic query failed condition"; a
  bound parameter is "a value passed alongside SQL text and substituted safely by the
  datastore driver"; and each lookup selects its columns from one table "where [the key]
  equals the bound parameter". The definitions of this subsection are that contract, and
  nothing of \<^verbatim>\<open>api/index.js\<close>.

  A table has named columns and tuples; a tuple gives every column its value, as the
  driver hands it to JavaScript (\<open>JNull\<close> for SQL NULL, a string for a text column). The
  datastore is reachable or not, has a clock (what \<^verbatim>\<open>NOW()\<close> reads) and its tables by name.
  \<open>encode\<close> is the text the driver sends for a parameter that is not a string; a string is
  sent as it is. \<open>refuses\<close> stands for every reason of the server's own to reject a statement
  on a table with given values (permissions, a value that does not fit the type of the
  column, a timeout), with the error it raises.
\<close>

type_synonym tuple = "string \<Rightarrow> jsval"

record table =
  columns :: "string list"
  tuples :: "tuple list"

record datastore =
  reachable :: bool
  clock :: int
  tables :: "string \<rightharpoonup> table"
  encode :: "jsval \<Rightarrow> string"
  refuses :: "string \<Rightarrow> jsval list \<Rightarrow> pg_error option"

text \<open>
  A column is a text column when each of its values is a string or NULL: a column of type
  \<^verbatim>\<open>text\<close> or \<^verbatim>\<open>varchar\<close> under a deterministic collation, on which \<^verbatim>\<open>=\<close> is equality of
  strings. On a column of another type (a number, or \<^verbatim>\<open>char(n)\<close> with its padding) the
  server compares otherwise, and nothing is claimed.
\<close>

fun is_text :: "jsval \<Rightarrow> bool" where
  "is_text (JString s) = True"
| "is_text JNull = True"
| "is_text v = False"

definition text_column :: "table \<Rightarrow> string \<Rightarrow> bool" where
  "text_column t c = list_all (\<lambda>u. is_text (u c)) (tuples t)"

text \<open>
  The statements the handlers send: \<^verbatim>\<open>SELECT NOW()\<close>, and
  \<^verbatim>\<open>SELECT <columns> FROM <table> WHERE c1 = $i1 AND c2 = $i2 ...\<close> with positional parameters.
  The statement is data of its own; the parameters travel beside it, never inside it.
\<close>

datatype select_list = Star | Columns "string list"

datatype sql = SelectNow | Select select_list string "(string \<times> nat) list"

fun selected :: "select_list \<Rightarrow> table \<Rightarrow> string list" where
  "selected Star t = columns t"
| "selected (Columns cs) t = cs"

fun conditions :: "sql \<Rightarrow> (string \<times> nat) list" where
  "conditions SelectNow = []"
| "conditions (Select sel name conds) = conds"

text \<open>The number of parameters a statement takes: its largest placeholder.\<close>

definition placeholders :: "sql \<Rightarrow> nat" where
  "placeholders q = fold max (map snd (conditions q)) 0"

text \<open>
  The text sent for a parameter: a string goes as it is, any other value in the driver's
  encoding. \<^verbatim>\<open>undefined\<close> and \<^verbatim>\<open>null\<close> are bound as NULL, with no text.
\<close>

fun sent_text :: "datastore \<Rightarrow> jsval \<Rightarrow> string" where
  "sent_text ds (JString s) = s"
| "sent_text ds v = encode ds v"

fun bound_text :: "datastore \<Rightarrow> jsval \<Rightarrow> string option" where
  "bound_text ds JUndefined = None"
| "bound_text ds JNull = None"
| "bound_text ds v = Some (sent_text ds v)"

text \<open>
  \<^verbatim>\<open>c = $i\<close> holds of a tuple when the column holds exactly the text bound to parameter
  \<open>i\<close>; a comparison with NULL holds of no tuple.
\<close>

definition holds :: "datastore \<Rightarrow> jsval list \<Rightarrow> tuple \<Rightarrow> string \<times> nat \<Rightarrow> bool" where
  "holds ds ps t cond =
     (case bound_text ds (ps ! (snd cond - 1)) of
        None \<Rightarrow> False
      | Some s \<Rightarrow> t (fst cond) = JString s)"

definition row_of :: "string list \<Rightarrow> tuple \<Rightarrow> jsval" where
  "row_of cs t = JObject (map (\<lambda>c. (c, t c)) cs)"

text \<open>
  PostgreSQL takes no text with the character U+0000: a statement with such a bound text
  is rejected (SQLSTATE 22021) before any row is compared.
\<close>

fun has_nul :: "string option \<Rightarrow> bool" where
  "has_nul None = False"
| "has_nul (Some s) = (CHR 0x00 \<in> set s)"

text \<open>
  A statement raises when the datastore cannot be reached, when it names a table or a
  column that is not there, when the values are not as many as its placeholders, when a
  bound text has U+0000, and when the server refuses it for a reason of its own.
  Otherwise a selection returns, in the order of the table, the selected columns of the
  tuples of which every condition holds; \<^verbatim>\<open>SELECT NOW()\<close> returns one row with the clock.
\<close>

definition run_sql :: "datastore \<Rightarrow> sql \<Rightarrow> jsval list \<Rightarrow> pg_error + jsval list" where
  "run_sql ds q ps =
     (if \<not> reachable ds then Inl ConnectionError
      else case q of
        SelectNow \<Rightarrow>
          (if ps \<noteq> [] then Inl BindError
           else Inr [JObject [(''now'', JDate (clock ds))]])
      | Select sel name conds \<Rightarrow>
          (case tables ds name of
             None \<Rightarrow> Inl (UndefinedTable name)
           | Some t \<Rightarrow>
               (case find (\<lambda>c. c \<notin> set (columns t)) (selected sel t @ map fst conds) of
                  Some c \<Rightarrow> Inl (UndefinedColumn c)
                | None \<Rightarrow>
                    if list_ex (\<lambda>cond. snd cond = 0) conds \<or> length ps \<noteq> placeholders q
                    then Inl BindError
                    else if list_ex (\<lambda>p. has_nul (bound_text ds p)) ps
                    then Inl InvalidByteSequence
                    else (case refuses ds name ps of
                            Some e \<Rightarrow> Inl e
                          | None \<Rightarrow>
                              Inr (map (row_of (selected sel t))
                                    (filter (\<lambda>t. list_all (holds ds ps t) conds)
                                       (tuples t)))))))"

subsection \<open>The world of a handler\<close>

text \<open>
  The datastore does not stand still between one query and the next: its clock moves on,
  and other clients may write to it. \<open>drift\<close> is that step of the datastore, taken after
  each query; what it does is up to the world, not to the handlers.
\<close>

record world =
  store :: datastore
  drift :: "datastore \<Rightarrow> datastore"
  issued :: "(sql \<times> jsval list) list"
  console :: "(string \<times> js_error) list"

text \<open>
  \<^verbatim>\<open>await pool.query(text, values)\<close>: the query is sent and answered by the datastore as
  it is now, and it resolves or rejects; the next query finds the datastore a step later.
\<close>

definition pool_query :: "sql \<Rightarrow> jsval list \<Rightarrow> world \<Rightarrow> (js_error + jsval list) \<times> world" where
  "pool_query q ps w =
     (case run_sql (store w) q ps of
        Inl e \<Rightarrow> Inl (DatabaseError e)
      | Inr rows \<Rightarrow> Inr rows,
      w\<lparr>store := drift w (store w), issued := issued w @ [(q, ps)]\<rparr>)"

definition console_error :: "string \<Rightarrow> js_error \<Rightarrow> world \<Rightarrow> world" where
  "console_error msg err w = w\<lparr>console := console w @ [(msg, err)]\<rparr>"

record response =
  status :: nat
  body :: jsval

text \<open>\<^verbatim>\<open>res.json(v)\<close> answers 200; \<^verbatim>\<open>res.status(c).json(v)\<close> answers \<open>c\<close>.\<close>

definition res_json :: "jsval \<Rightarrow> response" where
  "res_json v = \<lparr>status = 200, body = v\<rparr>"

definition res_status_json :: "nat \<Rightarrow> jsval \<Rightarrow> response" where
  "res_status_json c v = \<lparr>status = c, body = v\<rparr>"

definition error_body :: "string \<Rightarrow> jsval" where
  "error_body msg = JObject [(''error'', JString msg)]"

subsection \<open>GET /api/health\<close>

definition health_try :: "world \<Rightarrow> (js_error + response) \<times> world" where
  "health_try w =
     (case pool_query SelectNow [] w of
        (Inl err, w1) \<Rightarrow> (Inl err, w1)
      | (Inr rows, w1) \<Rightarrow>
          (case get_prop (first_row rows) ''now'' of
             Inl err \<Rightarrow> (Inl err, w1)
           | Inr t \<Rightarrow>
               (Inr (res_json (JObject
                  [(''status'', JString ''QuantumLink API is connected to Neon Cloud!''),
                   (''db_time'', t)])), w1)))"

definition health_handler :: "world \<Rightarrow> response \<times> world" where
  "health_handler w =
     (case health_try w of
        (Inr res, w1) \<Rightarrow> (res, w1)
      | (Inl err, w1) \<Rightarrow>
          (res_status_json 500 (error_body ''Failed to connect to Neon.''),
           console_error ''Database connection failed:'' err w1))"

subsection \<open>GET /api/warranty/:serialNumber\<close>

text \<open>\<^verbatim>\<open>SELECT * FROM external_warranties WHERE serial_number = $1\<close>\<close>

definition warranty_query :: sql where
  "warranty_query = Select Star ''external_warranties'' [(''serial_number'', 1)]"

definition warranty_try :: "string \<Rightarrow> world \<Rightarrow> (js_error + response) \<times> world" where
  "warranty_try serialNumber w =
     (case pool_query warranty_query [JString serialNumber] w of
        (Inl err, w1) \<Rightarrow> (Inl err, w1)
      | (Inr rows, w1) \<Rightarrow>
          (if length rows = 0
           then (Inr (res_status_json 404
                   (error_body ''Warranty not found for this serial number.'')), w1)
           else (Inr (res_json (first_row rows)), w1)))"

definition warranty_handler :: "string \<Rightarrow> world \<Rightarrow> response \<times> world" where
  "warranty_handler serialNumber w =
     (case warranty_try serialNumber w of
        (Inr res, w1) \<Rightarrow> (res, w1)
      | (Inl err, w1) \<Rightarrow>
          (res_status_json 500 (error_body ''Internal server error while fetching warranty.''),
           console_error ''Database error:'' err w1))"

subsection \<open>POST /api/verify-user\<close>

text \<open>
  \<^verbatim>\<open>SELECT customer_external_id, full_name, email, account_status
  FROM external_customers WHERE customer_external_id = $1 AND email = $2\<close>
\<close>

definition verify_user_query :: sql where
  "verify_user_query =
     Select (Columns [''customer_external_id'', ''full_name'', ''email'', ''account_status''])
       ''external_customers'' [(''customer_external_id'', 1), (''email'', 2)]"

definition verify_user_try :: "jsval \<Rightarrow> world \<Rightarrow> (js_error + response) \<times> world" where
  "verify_user_try req_body w =
     (case get_prop req_body ''externalAccountId'' of
        Inl err \<Rightarrow> (Inl err, w)
      | Inr externalAccountId \<Rightarrow>
     (case get_prop req_body ''email'' of
        Inl err \<Rightarrow> (Inl err, w)
      | Inr email \<Rightarrow>
          if \<not> truthy externalAccountId \<or> \<not> truthy email
          then (Inr (res_status_json 400
                  (error_body ''Missing required fields: externalAccountId or email.'')), w)
          else
            (case pool_query verify_user_query [externalAccountId, email] w of
               (Inl err, w1) \<Rightarrow> (Inl err, w1)
             | (Inr rows, w1) \<Rightarrow>
                 (if length rows = 0
                  then (Inr (res_status_json 401 (JObject
                          [(''verified'', JBool False),
                           (''message'', JString
                              ''Identity verification failed. No match found in external system.'')])),
                        w1)
                  else (Inr (res_json (JObject
                          [(''verified'', JBool True),
                           (''customer'', first_row rows)])), w1)))))"

definition verify_user_handler :: "jsval \<Rightarrow> world \<Rightarrow> response \<times> world" where
  "verify_user_handler req_body w =
     (case verify_user_try req_body w of
        (Inr res, w1) \<Rightarrow> (res, w1)
      | (Inl err, w1) \<Rightarrow>
          (res_status_json 500 (error_body ''Internal server error during user verification.''),
           console_error ''Database error during verification:'' err w1))"

subsection \<open>GET /api/quote/:partId\<close>

text \<open>
  \<^verbatim>\<open>SELECT part_id, part_name, base_price, stock_quantity, compatibility_notes
  FROM parts_pricing WHERE part_id = $1\<close>
\<close>

definition quote_query :: sql where
  "quote_query =
     Select (Columns [''part_id'', ''part_name'', ''base_price'', ''stock_quantity'',
                      ''compatibility_notes''])
       ''parts_pricing'' [(''part_id'', 1)]"

definition quote_try :: "string \<Rightarrow> world \<Rightarrow> (js_error + response) \<times> world" where
  "quote_try partId w =
     (case pool_query quote_query [JString partId] w of
        (Inl err, w1) \<Rightarrow> (Inl err, w1)
      | (Inr rows, w1) \<Rightarrow>
          (if length rows = 0
           then (Inr (res_status_json 404 (error_body ''Part not found in inventory.'')), w1)
           else (Inr (res_json (first_row rows)), w1)))"

definition quote_handler :: "string \<Rightarrow> world \<Rightarrow> response \<times> world" where
  "quote_handler partId w =
     (case quote_try partId w of
        (Inr res, w1) \<Rightarrow> (res, w1)
      | (Inl err, w1) \<Rightarrow>
          (res_status_json 500
             (error_body ''Internal server error while fetching repair quote.''),
           console_error ''Database error fetching quote:'' err w1))"

subsection \<open>The router\<close>

text \<open>
  The registrations \<^verbatim>\<open>app.get(path, handler)\<close> and \<^verbatim>\<open>app.post(path, handler)\<close>, in the order
  of the file.
\<close>

datatype http_method = GET | POST | PUT | PATCH | DELETE | HEAD | OPTIONS

datatype handler = Health | Warranty | VerifyUser | Quote

definition routes :: "(http_method \<times> string \<times> handler) list" where
  "routes =
     [(GET, ''/api/health'', Health),
      (GET, ''/api/warranty/:serialNumber'', Warranty),
      (POST, ''/api/verify-user'', VerifyUser),
      (GET, ''/api/quote/:partId'', Quote)]"

text \<open>
  Which registration takes a request is decided by Express, a dependency of the file and
  no code of the repository. Two of its rules are written out: the registrations are tried
  in the order in which they were made and the first that takes the request handles it,
  and a registration made with \<^verbatim>\<open>app.get\<close> also takes a HEAD request when none was made for
  HEAD. How Express compares a path with a pattern (by default without regard to case,
  with an optional trailing slash, and handing over the parameters percent-decoded) is not
  written out: the matcher is a parameter of the router, giving the parameters of the
  match or \<open>None\<close>. The middleware that the file installs before the routes (\<^verbatim>\<open>cors()\<close>,
  \<^verbatim>\<open>express.json()\<close>) is no part of the router either: a request that it answers itself,
  such as a preflight request or a body that is no JSON, does not come this far.
\<close>

type_synonym matcher = "string \<Rightarrow> string \<Rightarrow> (string \<times> string) list option"

fun serves :: "http_method \<Rightarrow> http_method \<Rightarrow> bool" where
  "serves GET HEAD = True"
| "serves registered requested = (registered = requested)"

fun dispatch ::
  "matcher \<Rightarrow> (http_method \<times> string \<times> handler) list \<Rightarrow> http_method \<Rightarrow> string
     \<Rightarrow> (handler \<times> (string \<times> string) list) option" where
  "dispatch matches [] m path = None"
| "dispatch matches ((m', pattern, h) # rs) m path =
     (if serves m' m
      then (case matches pattern path of
              Some params \<Rightarrow> Some (h, params)
            | None \<Rightarrow> dispatch matches rs m path)
      else dispatch matches rs m path)"

record request =
  req_method :: http_method
  req_path :: string
  req_body :: jsval

definition req_param :: "(string \<times> string) list \<Rightarrow> string \<Rightarrow> string" where
  "req_param params k = (case map_of params k of Some v \<Rightarrow> v | None \<Rightarrow> [])"

text \<open>The application: \<open>None\<close> when no registration takes the request.\<close>

definition app :: "matcher \<Rightarrow> request \<Rightarrow> world \<Rightarrow> response option \<times> world" where
  "app matches req w =
     (case dispatch matches routes (req_method req) (req_path req) of
        None \<Rightarrow> (None, w)
      | Some (Health, params) \<Rightarrow> apfst Some (health_handler w)
      | Some (Warranty, params) \<Rightarrow>
          apfst Some (warranty_handler (req_param params ''serialNumber'') w)
      | Some (VerifyUser, params) \<Rightarrow> apfst Some (verify_user_handler (req_body req) w)
      | Some (Quote, params) \<Rightarrow> apfst Some (quote_handler (req_param params ''partId'') w))"




subsection \<open>A sample datastore\<close>

text \<open>
  Concrete tables on which the properties below are put to work. The warranty table has
  columns of its own choosing besides the key; the customer and the parts tables each have
  one column more than the handlers select. The server of the sample refuses nothing for
  reasons of its own.
\<close>

definition warranty_1001 :: tuple where
  "warranty_1001 =
     (\<lambda>c. JNull)
       (''serial_number'' := JString ''QL-1001'',
        ''product_name'' := JString ''Quantum Router'',
        ''warranty_status'' := JString ''active'')"

definition warranty_1002 :: tuple where
  "warranty_1002 =
     (\<lambda>c. JNull)
       (''serial_number'' := JString ''QL-1002'',
        ''product_name'' := JString ''Quantum Switch'',
        ''warranty_status'' := JString ''expired'')"

definition sample_warranties :: table where
  "sample_warranties =
     \<lparr>columns = [''serial_number'', ''product_name'', ''warranty_status''],
      tuples = [warranty_1001, warranty_1002]\<rparr>"

definition customer_ada :: tuple where
  "customer_ada =
     (\<lambda>c. JNull)
       (''customer_external_id'' := JString ''EXT-1'',
        ''full_name'' := JString ''Ada Lovelace'',
        ''email'' := JString ''ada@example.com'',
        ''account_status'' := JString ''active'',
        ''phone'' := JString ''555-0100'')"

definition customer_alan :: tuple where
  "customer_alan =
     (\<lambda>c. JNull)
       (''customer_external_id'' := JString ''EXT-2'',
        ''full_name'' := JString ''Alan Turing'',
        ''email'' := JString ''alan@example.com'',
        ''account_status'' := JString ''suspended'',
        ''phone'' := JString ''555-0101'')"

definition sample_customers :: table where
  "sample_customers =
     \<lparr>columns = [''customer_external_id'', ''full_name'', ''email'', ''account_status'',
                 ''phone''],
      tuples = [customer_ada, customer_alan]\<rparr>"

definition part_fan :: tuple where
  "part_fan =
     (\<lambda>c. JNull)
       (''part_id'' := JString ''P-7'',
        ''part_name'' := JString ''Cooling fan'',
        ''base_price'' := JString ''19.99'',
        ''stock_quantity'' := JNumber (Finite 12),
        ''compatibility_notes'' := JString ''Fits QL-1000 series'',
        ''supplier'' := JString ''Acme'')"

definition sample_parts :: table where
  "sample_parts =
     \<lparr>columns = [''part_id'', ''part_name'', ''base_price'', ''stock_quantity'',
                 ''compatibility_notes'', ''supplier''],
      tuples = [part_fan]\<rparr>"

definition sample_store :: datastore where
  "sample_store =
     \<lparr>reachable = True,
      clock = 1767225600000,
      tables =
        [''external_warranties'' \<mapsto> sample_warranties,
         ''external_customers'' \<mapsto> sample_customers,
         ''parts_pricing'' \<mapsto> sample_parts],
      encode = (\<lambda>v. ''?''),
      refuses = (\<lambda>name ps. None)\<rparr>"

text \<open>Between two queries a quarter of a second passes, and nothing else happens.\<close>

definition quarter_second :: "datastore \<Rightarrow> datastore" where
  "quarter_second ds = ds\<lparr>clock := clock ds + 250\<rparr>"

definition sample_world :: world where
  "sample_world =
     \<lparr>store = sample_store, drift = quarter_second, issued = [], console = []\<rparr>"

definition offline_world :: world where
  "offline_world =
     \<lparr>store = sample_store\<lparr>reachable := False\<rparr>, drift = quarter_second,
      issued = [], console = []\<rparr>"

section \<open>Properties\<close>

subsection \<open>The datastore and the outcome of each handler\<close>

text \<open>
  What a statement returns on a datastore, and each handler as one case distinction on the
  result of its query. The claims below are read off these.
\<close>

lemma find_absent_None: "set cs \<subseteq> A \<Longrightarrow> find (\<lambda>c. c \<notin> A) cs = None"
  by (auto simp: find_None_iff)

lemma find_first_filter:
  "find P xs = (case filter P xs of [] \<Rightarrow> None | x # ys \<Rightarrow> Some x)"
  by (induction xs) auto


lemma run_sql_unreachable: "\<not> reachable ds \<Longrightarrow> run_sql ds q ps = Inl ConnectionError"
  by (simp add: run_sql_def)

lemma run_sql_now:
  "reachable ds \<Longrightarrow> run_sql ds SelectNow [] = Inr [JObject [(''now'', JDate (clock ds))]]"
  by (simp add: run_sql_def)

lemma run_sql_now_raises_iff:
  "(\<exists>e. run_sql ds SelectNow [] = Inl e) \<longleftrightarrow> \<not> reachable ds"
  by (simp add: run_sql_def)

lemma run_sql_select:
  assumes "reachable ds" and "tables ds name = Some t"
    and "set (selected sel t @ map fst conds) \<subseteq> set (columns t)"
    and "\<not> list_ex (\<lambda>cond. snd cond = 0) conds"
    and "length ps = placeholders (Select sel name conds)"
    and "\<not> list_ex (\<lambda>p. has_nul (bound_text ds p)) ps"
    and "refuses ds name ps = None"
  shows "run_sql ds (Select sel name conds) ps =
    Inr (map (row_of (selected sel t))
          (filter (\<lambda>u. list_all (holds ds ps u) conds) (tuples t)))"
  using assms by (simp add: run_sql_def find_absent_None del: set_append)

lemma run_sql_select_nul:
  assumes "reachable ds" and "tables ds name = Some t"
    and "set (selected sel t @ map fst conds) \<subseteq> set (columns t)"
    and "\<not> list_ex (\<lambda>cond. snd cond = 0) conds"
    and "length ps = placeholders (Select sel name conds)"
    and "list_ex (\<lambda>p. has_nul (bound_text ds p)) ps"
  shows "run_sql ds (Select sel name conds) ps = Inl InvalidByteSequence"
  using assms by (simp add: run_sql_def find_absent_None del: set_append)

lemma run_sql_select_rows:
  assumes "run_sql ds (Select sel name conds) ps = Inr rows"
  shows "\<exists>t. tables ds name = Some t
      \<and> rows = map (row_of (selected sel t))
                 (filter (\<lambda>u. list_all (holds ds ps u) conds) (tuples t))"
  using assms
  by (auto simp add: run_sql_def simp del: set_append split: if_splits option.splits)









lemmas sample_defs =
  sample_world_def offline_world_def sample_store_def sample_warranties_def
  sample_customers_def sample_parts_def

lemmas sample_rows =
  warranty_1001_def warranty_1002_def customer_ada_def customer_alan_def part_fan_def

subsection \<open>Warranty lookup\<close>




subsection \<open>Repair quote\<close>




lemma truthy_bound_text: "truthy v \<Longrightarrow> bound_text ds v = Some (sent_text ds v)"
  by (cases v) simp_all

lemma verify_user_rows:
  assumes "run_sql ds verify_user_query [a, e] = Inr rows"
    and "tables ds ''external_customers'' = Some t"
    and "truthy a" and "truthy e"
  shows "rows =
    map (row_of [''customer_external_id'', ''full_name'', ''email'', ''account_status''])
      (filter (\<lambda>u. u ''customer_external_id'' = JString (sent_text ds a)
                   \<and> u ''email'' = JString (sent_text ds e)) (tuples t))"
  using run_sql_select_rows [OF assms(1) [unfolded verify_user_query_def]] assms(2-4)
  by (auto simp: holds_def truthy_bound_text)

lemma run_verify_user_query:
  assumes "reachable ds" and "tables ds ''external_customers'' = Some t"
    and "set [''customer_external_id'', ''full_name'', ''email'', ''account_status'']
           \<subseteq> set (columns t)"
    and "truthy a" and "truthy e"
    and "CHR 0x00 \<notin> set (sent_text ds a)" and "CHR 0x00 \<notin> set (sent_text ds e)"
    and "refuses ds ''external_customers'' [a, e] = None"
  shows "run_sql ds verify_user_query [a, e] =
    Inr (map (row_of [''customer_external_id'', ''full_name'', ''email'', ''account_status''])
          (filter (\<lambda>u. u ''customer_external_id'' = JString (sent_text ds a)
                       \<and> u ''email'' = JString (sent_text ds e)) (tuples t)))"
  unfolding verify_user_query_def using assms
  by (subst run_sql_select[where t = t])
     (simp_all add: placeholders_def holds_def truthy_bound_text)

lemma run_verify_user_query_nul:
  assumes "reachable ds" and "tables ds ''external_customers'' = Some t"
    and "set [''customer_external_id'', ''full_name'', ''email'', ''account_status'']
           \<subseteq> set (columns t)"
    and "truthy a" and "truthy e"
    and "CHR 0x00 \<in> set (sent_text ds a) \<or> CHR 0x00 \<in> set (sent_text ds e)"
  shows "run_sql ds verify_user_query [a, e] = Inl InvalidByteSequence"
  unfolding verify_user_query_def using assms
  by (subst run_sql_select_nul[where t = t])
     (auto simp add: placeholders_def truthy_bound_text)

lemma verify_user_handler_rejects:
  assumes "get_prop payload ''externalAccountId'' = Inr a"
    and "get_prop payload ''email'' = Inr e"
    and "\<not> truthy a \<or> \<not> truthy e"
  shows "verify_user_handler payload w =
     (\<lparr>status = 400,
       body = JObject [(''error'', JString ''Missing required fields: externalAccountId or email.'')]\<rparr>,
      w)"
  using assms
  by (auto simp add: verify_user_handler_def verify_user_try_def res_status_json_def error_body_def)

lemma verify_user_handler_outcome:
  assumes "get_prop payload ''externalAccountId'' = Inr a"
    and "get_prop payload ''email'' = Inr e"
    and "truthy a" and "truthy e"
  shows "verify_user_handler payload w =
     (case run_sql (store w) verify_user_query [a, e] of
        Inl err \<Rightarrow>
          (\<lparr>status = 500,
            body = JObject [(''error'', JString ''Internal server error during user verification.'')]\<rparr>,
           console_error ''Database error during verification:'' (DatabaseError err)
             (w\<lparr>store := drift w (store w),
                issued := issued w @ [(verify_user_query, [a, e])]\<rparr>))
      | Inr rows \<Rightarrow>
          (case rows of
             [] \<Rightarrow> \<lparr>status = 401,
                    body = JObject
                      [(''verified'', JBool False),
                       (''message'', JString
                          ''Identity verification failed. No match found in external system.'')]\<rparr>
           | r # rs \<Rightarrow> \<lparr>status = 200,
                    body = JObject [(''verified'', JBool True), (''customer'', r)]\<rparr>,
           w\<lparr>store := drift w (store w),
              issued := issued w @ [(verify_user_query, [a, e])]\<rparr>))"
  using assms
  by (simp add: verify_user_handler_def verify_user_try_def pool_query_def res_json_def
      res_status_json_def error_body_def split: sum.splits list.splits)

subsection \<open>Identity verification\<close>

text \<open>
  Claim C1, as amended. For every POST /api/verify-user request whose two fields are both
  truthy (present, and neither an empty string nor another falsy value): when the query
  raises, the response is 500 with the error "Internal server error during user
  verification."; when the query does not raise and no row of the customer table, whose
  \<open>customer_external_id\<close> and \<open>email\<close> are text columns, has both its \<open>customer_external_id\<close>
  equal to the text sent for \<open>externalAccountId\<close> and its \<open>email\<close> equal to the text sent for
  \<open>email\<close>, the response is 401 with \<open>verified: false\<close> and the message "Identity verification
  failed. No match found in external system."; and when the query does not raise and \<open>u\<close>
  is the first row that matches both, the response is 200 with \<open>verified: true\<close> and the four
  fields \<open>customer_external_id\<close>, \<open>full_name\<close>, \<open>email\<close>, \<open>account_status\<close> of that row as
  \<open>customer\<close>. The text sent for a string is the string itself, and the match is equality
  of strings on both columns of one row.
\<close>

theorem verify_user_policy:
  assumes "get_prop payload ''externalAccountId'' = Inr a"
    and "get_prop payload ''email'' = Inr e"
    and "truthy a" and "truthy e"
  shows
  "(run_sql (store w) verify_user_query [a, e] = Inl err \<longrightarrow>
      fst (verify_user_handler payload w) =
        \<lparr>status = 500,
         body = JObject [(''error'', JString ''Internal server error during user verification.'')]\<rparr>)
   \<and> (run_sql (store w) verify_user_query [a, e] = Inr rows
        \<and> tables (store w) ''external_customers'' = Some t
        \<and> text_column t ''customer_external_id'' \<and> text_column t ''email'' \<longrightarrow>
      ((\<forall>u \<in> set (tuples t).
          \<not> (u ''customer_external_id'' = JString (sent_text (store w) a)
             \<and> u ''email'' = JString (sent_text (store w) e))) \<longrightarrow>
         fst (verify_user_handler payload w) =
           \<lparr>status = 401,
            body = JObject
              [(''verified'', JBool False),
               (''message'', JString
                  ''Identity verification failed. No match found in external system.'')]\<rparr>)
      \<and> (find (\<lambda>u. u ''customer_external_id'' = JString (sent_text (store w) a)
                   \<and> u ''email'' = JString (sent_text (store w) e)) (tuples t) = Some u \<longrightarrow>
         fst (verify_user_handler payload w) =
           \<lparr>status = 200,
            body = JObject
              [(''verified'', JBool True),
               (''customer'', JObject
                  [(''customer_external_id'', u ''customer_external_id''),
                   (''full_name'', u ''full_name''),
                   (''email'', u ''email''),
                   (''account_status'', u ''account_status'')])]\<rparr>))"
proof -
  let ?match = "\<lambda>u. u ''customer_external_id'' = JString (sent_text (store w) a)
                     \<and> u ''email'' = JString (sent_text (store w) e)"
  let ?four = "[''customer_external_id'', ''full_name'', ''email'', ''account_status'']"
  note outcome = verify_user_handler_outcome [OF assms, of w]
  have raised: "fst (verify_user_handler payload w) =
        \<lparr>status = 500,
         body = JObject [(''error'', JString ''Internal server error during user verification.'')]\<rparr>"
    if "run_sql (store w) verify_user_query [a, e] = Inl err"
    using that by (simp add: outcome)
  have no_match: "fst (verify_user_handler payload w) =
           \<lparr>status = 401,
            body = JObject
              [(''verified'', JBool False),
               (''message'', JString
                  ''Identity verification failed. No match found in external system.'')]\<rparr>"
    if ran: "run_sql (store w) verify_user_query [a, e] = Inr rows
        \<and> tables (store w) ''external_customers'' = Some t
        \<and> text_column t ''customer_external_id'' \<and> text_column t ''email''"
      and none: "\<forall>u \<in> set (tuples t). \<not> ?match u"
  proof -
    from none have "filter ?match (tuples t) = []"
      by (simp add: filter_empty_conv)
    with ran verify_user_rows [of "store w" a e rows t] assms(3,4) have "rows = []"
      by simp
    with ran show ?thesis
      by (simp add: outcome)
  qed
  have matched: "fst (verify_user_handler payload w) =
           \<lparr>status = 200,
            body = JObject
              [(''verified'', JBool True),
               (''customer'', JObject
                  [(''customer_external_id'', u ''customer_external_id''),
                   (''full_name'', u ''full_name''),
                   (''email'', u ''email''),
                   (''account_status'', u ''account_status'')])]\<rparr>"
    if ran: "run_sql (store w) verify_user_query [a, e] = Inr rows
        \<and> tables (store w) ''external_customers'' = Some t
        \<and> text_column t ''customer_external_id'' \<and> text_column t ''email''"
      and some: "find ?match (tuples t) = Some u"
  proof -
    from some obtain us where "filter ?match (tuples t) = u # us"
      by (auto simp: find_first_filter split: list.splits)
    with ran verify_user_rows [of "store w" a e rows t] assms(3,4)
    have "rows = row_of ?four u # map (row_of ?four) us"
      by simp
    with ran show ?thesis
      by (simp add: outcome row_of_def)
  qed
  from raised no_match matched show ?thesis
    by blast
qed

text \<open>
  On the sample datastore: the store offline; an id and an email that each belong to a
  customer, but not to the same one; and the id and email of the second customer.
\<close>

theorem verify_user_policy_witness:
  "run_sql (store offline_world) verify_user_query
       [JString ''EXT-1'', JString ''ada@example.com''] = Inl ConnectionError
   \<and> fst (verify_user_handler
         (JObject [(''externalAccountId'', JString ''EXT-1''),
                   (''email'', JString ''ada@example.com'')]) offline_world) =
        \<lparr>status = 500,
         body = JObject [(''error'', JString ''Internal server error during user verification.'')]\<rparr>
   \<and> run_sql (store sample_world) verify_user_query
       [JString ''EXT-1'', JString ''alan@example.com''] = Inr []
   \<and> text_column sample_customers ''customer_external_id''
   \<and> text_column sample_customers ''email''
   \<and> filter (\<lambda>u. u ''customer_external_id'' = JString ''EXT-1''
                  \<and> u ''email'' = JString ''alan@example.com'') (tuples sample_customers) = []
   \<and> fst (verify_user_handler
         (JObject [(''externalAccountId'', JString ''EXT-1''),
                   (''email'', JString ''alan@example.com'')]) sample_world) =
        \<lparr>status = 401,
         body = JObject
           [(''verified'', JBool False),
            (''message'', JString
               ''Identity verification failed. No match found in external system.'')]\<rparr>
   \<and> find (\<lambda>u. u ''customer_external_id'' = JString ''EXT-2''
                \<and> u ''email'' = JString ''alan@example.com'') (tuples sample_customers)
        = Some customer_alan
   \<and> fst (verify_user_handler
         (JObject [(''externalAccountId'', JString ''EXT-2''),
                   (''email'', JString ''alan@example.com'')]) sample_world) =
        \<lparr>status = 200,
         body = JObject
           [(''verified'', JBool True),
            (''customer'', JObject
               [(''customer_external_id'', JString ''EXT-2''),
                (''full_name'', JString ''Alan Turing''),
                (''email'', JString ''alan@example.com''),
                (''account_status'', JString ''suspended'')])]\<rparr>"
proof -
  let ?ada = "JObject [(''externalAccountId'', JString ''EXT-1''),
                       (''email'', JString ''ada@example.com'')]"
  let ?mixed = "JObject [(''externalAccountId'', JString ''EXT-1''),
                         (''email'', JString ''alan@example.com'')]"
  let ?alan = "JObject [(''externalAccountId'', JString ''EXT-2''),
                        (''email'', JString ''alan@example.com'')]"
  let ?four = "[''customer_external_id'', ''full_name'', ''email'', ''account_status'']"
  have fields:
    "get_prop ?ada ''externalAccountId'' = Inr (JString ''EXT-1'')"
    "get_prop ?ada ''email'' = Inr (JString ''ada@example.com'')"
    "get_prop ?mixed ''externalAccountId'' = Inr (JString ''EXT-1'')"
    "get_prop ?mixed ''email'' = Inr (JString ''alan@example.com'')"
    "get_prop ?alan ''externalAccountId'' = Inr (JString ''EXT-2'')"
    "get_prop ?alan ''email'' = Inr (JString ''alan@example.com'')"
    by simp_all
  have nonempty: "truthy (JString ''EXT-1'')" "truthy (JString ''EXT-2'')"
    "truthy (JString ''ada@example.com'')" "truthy (JString ''alan@example.com'')"
    by simp_all
  have down: "run_sql (store offline_world) verify_user_query
       [JString ''EXT-1'', JString ''ada@example.com''] = Inl ConnectionError"
    by (simp add: run_sql_unreachable offline_world_def)
  have table: "tables (store sample_world) ''external_customers'' = Some sample_customers"
    and textual: "text_column sample_customers ''customer_external_id''"
      "text_column sample_customers ''email''"
    by (simp_all add: sample_defs sample_rows text_column_def)
  have "run_sql (store sample_world) verify_user_query
       [JString ''EXT-1'', JString ''alan@example.com''] =
      Inr (map (row_of ?four)
        (filter (\<lambda>u. u ''customer_external_id''
                        = JString (sent_text (store sample_world) (JString ''EXT-1''))
                   \<and> u ''email''
                        = JString (sent_text (store sample_world) (JString ''alan@example.com'')))
           (tuples sample_customers)))"
    by (rule run_verify_user_query) (simp_all add: sample_defs)
  then have absent: "run_sql (store sample_world) verify_user_query
       [JString ''EXT-1'', JString ''alan@example.com''] = Inr []"
    by (simp add: sample_customers_def sample_rows)
  have "run_sql (store sample_world) verify_user_query
       [JString ''EXT-2'', JString ''alan@example.com''] =
      Inr (map (row_of ?four)
        (filter (\<lambda>u. u ''customer_external_id''
                        = JString (sent_text (store sample_world) (JString ''EXT-2''))
                   \<and> u ''email''
                        = JString (sent_text (store sample_world) (JString ''alan@example.com'')))
           (tuples sample_customers)))"
    by (rule run_verify_user_query) (simp_all add: sample_defs)
  then have present: "run_sql (store sample_world) verify_user_query
       [JString ''EXT-2'', JString ''alan@example.com''] = Inr [row_of ?four customer_alan]"
    by (simp add: sample_customers_def sample_rows)
  have none: "\<forall>u \<in> set (tuples sample_customers).
      \<not> (u ''customer_external_id'' = JString ''EXT-1''
         \<and> u ''email'' = JString ''alan@example.com'')"
    by (simp add: sample_customers_def customer_ada_def customer_alan_def)
  have some: "find (\<lambda>u. u ''customer_external_id'' = JString ''EXT-2''
                \<and> u ''email'' = JString ''alan@example.com'') (tuples sample_customers)
        = Some customer_alan"
    by (simp add: sample_customers_def customer_ada_def customer_alan_def)
  have vals: "customer_alan ''customer_external_id'' = JString ''EXT-2''"
    "customer_alan ''full_name'' = JString ''Alan Turing''"
    "customer_alan ''email'' = JString ''alan@example.com''"
    "customer_alan ''account_status'' = JString ''suspended''"
    by (simp_all add: customer_alan_def)
  show ?thesis
    using down table textual absent present none some vals
      verify_user_policy [OF fields(1,2) nonempty(1,3),
        of offline_world ConnectionError "[]" sample_customers customer_alan]
      verify_user_policy [OF fields(3,4) nonempty(1,4),
        of sample_world ConnectionError "[]" sample_customers customer_alan]
      verify_user_policy [OF fields(5,6) nonempty(2,4),
        of sample_world ConnectionError "[row_of ?four customer_alan]"
        sample_customers customer_alan]
    by (simp add: filter_empty_conv)
qed

text \<open>
  The claim as first stated asks only that both fields be present, and answers 401
  whenever no row matches. Two requests on the reachable sample store, neither matched by
  a row: with the id of a customer and an empty string for \<open>email\<close>, both fields are
  present and the response is 400; with the id and the email of the first customer, the
  email followed by the character U+0000, both fields are truthy, the query raises and
  the response is 500.
\<close>

theorem verify_user_present_counterexample:
  "map_of [(''externalAccountId'', JString ''EXT-2''), (''email'', JString [])]
       ''externalAccountId'' = Some (JString ''EXT-2'')
   \<and> map_of [(''externalAccountId'', JString ''EXT-2''), (''email'', JString [])]
       ''email'' = Some (JString [])
   \<and> filter (\<lambda>u. u ''customer_external_id'' = JString ''EXT-2'' \<and> u ''email'' = JString [])
        (tuples sample_customers) = []
   \<and> reachable (store sample_world)
   \<and> status (fst (verify_user_handler
        (JObject [(''externalAccountId'', JString ''EXT-2''), (''email'', JString [])])
        sample_world)) = 400
   \<and> status (fst (verify_user_handler
        (JObject [(''externalAccountId'', JString ''EXT-2''), (''email'', JString [])])
        sample_world)) \<noteq> 401
   \<and> truthy (JString ''EXT-1'')
   \<and> truthy (JString (''ada@example.com'' @ [CHR 0x00]))
   \<and> filter (\<lambda>u. u ''customer_external_id'' = JString ''EXT-1''
                 \<and> u ''email'' = JString (''ada@example.com'' @ [CHR 0x00]))
        (tuples sample_customers) = []
   \<and> run_sql (store sample_world) verify_user_query
        [JString ''EXT-1'', JString (''ada@example.com'' @ [CHR 0x00])]
       = Inl InvalidByteSequence
   \<and> status (fst (verify_user_handler
        (JObject [(''externalAccountId'', JString ''EXT-1''),
                  (''email'', JString (''ada@example.com'' @ [CHR 0x00]))])
        sample_world)) = 500
   \<and> status (fst (verify_user_handler
        (JObject [(''externalAccountId'', JString ''EXT-1''),
                  (''email'', JString (''ada@example.com'' @ [CHR 0x00]))])
        sample_world)) \<noteq> 401"
proof -
  let ?nul = "JObject [(''externalAccountId'', JString ''EXT-1''),
                       (''email'', JString (''ada@example.com'' @ [CHR 0x00]))]"
  have rejected: "verify_user_handler
        (JObject [(''externalAccountId'', JString ''EXT-2''), (''email'', JString [])])
        sample_world =
     (\<lparr>status = 400,
       body = JObject [(''error'', JString ''Missing required fields: externalAccountId or email.'')]\<rparr>,
      sample_world)"
    by (rule verify_user_handler_rejects [where a = "JString ''EXT-2''" and e = "JString []"])
       simp_all
  have raised: "run_sql (store sample_world) verify_user_query
        [JString ''EXT-1'', JString (''ada@example.com'' @ [CHR 0x00])]
       = Inl InvalidByteSequence"
    by (rule run_verify_user_query_nul [where t = sample_customers])
       (simp_all add: sample_defs)
  have "verify_user_handler ?nul sample_world =
     (case run_sql (store sample_world) verify_user_query
             [JString ''EXT-1'', JString (''ada@example.com'' @ [CHR 0x00])] of
        Inl err \<Rightarrow>
          (\<lparr>status = 500,
            body = JObject [(''error'', JString ''Internal server error during user verification.'')]\<rparr>,
           console_error ''Database error during verification:'' (DatabaseError err)
             (sample_world\<lparr>store := drift sample_world (store sample_world),
                issued := issued sample_world @
                  [(verify_user_query,
                    [JString ''EXT-1'', JString (''ada@example.com'' @ [CHR 0x00])])]\<rparr>))
      | Inr rows \<Rightarrow>
          (case rows of
             [] \<Rightarrow> \<lparr>status = 401,
                    body = JObject
                      [(''verified'', JBool False),
                       (''message'', JString
                          ''Identity verification failed. No match found in external system.'')]\<rparr>
           | r # rs \<Rightarrow> \<lparr>status = 200,
                    body = JObject [(''verified'', JBool True), (''customer'', r)]\<rparr>,
           sample_world\<lparr>store := drift sample_world (store sample_world),
              issued := issued sample_world @
                [(verify_user_query,
                  [JString ''EXT-1'', JString (''ada@example.com'' @ [CHR 0x00])])]\<rparr>))"
    by (rule verify_user_handler_outcome) simp_all
  with raised have answered: "status (fst (verify_user_handler ?nul sample_world)) = 500"
    by simp
  have rows: "filter (\<lambda>u. u ''customer_external_id'' = JString ''EXT-2'' \<and> u ''email'' = JString [])
        (tuples sample_customers) = []"
    "filter (\<lambda>u. u ''customer_external_id'' = JString ''EXT-1''
                 \<and> u ''email'' = JString (''ada@example.com'' @ [CHR 0x00]))
        (tuples sample_customers) = []"
    by (simp_all add: sample_customers_def sample_rows)
  have up: "reachable (store sample_world)"
    by (simp add: sample_defs)
  from rejected raised answered rows up show ?thesis
    by simp
qed

text \<open>
  Claim C2. A POST /api/verify-user request in which \<open>externalAccountId\<close> or \<open>email\<close> is
  missing or falsy is to be answered 400 with the error "Missing required fields:
  externalAccountId or email.", with no query sent. The guard of the handler does so for
  every body from which the two fields can be read (\<open>verify_user_handler_rejects\<close>). A
  request that carries no body at all has both fields missing, and for it the body is
  \<^verbatim>\<open>undefined\<close>: reading the fields throws before the guard is reached, the handler logs
  the TypeError as a database error and answers 500, still without a query.
\<close>

theorem verify_user_no_body:
  "get_prop JUndefined ''externalAccountId'' = Inl TypeError
   \<and> verify_user_handler JUndefined w =
     (\<lparr>status = 500,
       body = JObject [(''error'', JString ''Internal server error during user verification.'')]\<rparr>,
      console_error ''Database error during verification:'' TypeError w)
   \<and> status (fst (verify_user_handler JUndefined w)) \<noteq> 400
   \<and> issued (snd (verify_user_handler JUndefined w)) = issued w"
  by (simp add: verify_user_handler_def verify_user_try_def res_status_json_def error_body_def
      console_error_def)

text \<open>
  Claim C10. For every POST /api/verify-user request whose body is an object in which
  \<open>externalAccountId\<close> or \<open>email\<close> is present with a falsy value (the empty string, 0, NaN,
  \<^verbatim>\<open>false\<close> or \<^verbatim>\<open>null\<close>), the handler answers 400 with the error "Missing required fields:
  externalAccountId or email." and sends no query: the world is returned as it was, so
  such a value never reaches the match that decides between 401 and 200.
\<close>

theorem verify_user_falsy_field:
  assumes "map_of fs k = Some v"
    and "k = ''externalAccountId'' \<or> k = ''email''"
    and "\<not> truthy v"
  shows "verify_user_handler (JObject fs) w =
     (\<lparr>status = 400,
       body = JObject [(''error'', JString ''Missing required fields: externalAccountId or email.'')]\<rparr>,
      w)"
proof -
  obtain a e where fields: "get_prop (JObject fs) ''externalAccountId'' = Inr a"
      "get_prop (JObject fs) ''email'' = Inr e"
    by simp
  from assms fields have "\<not> truthy a \<or> \<not> truthy e"
    by auto
  with fields show ?thesis
    by (rule verify_user_handler_rejects)
qed

text \<open>
  An empty-string email, a zero id, a \<^verbatim>\<open>false\<close> email and a \<^verbatim>\<open>null\<close> email, each beside a
  well-formed other field, on the reachable sample store.
\<close>

theorem verify_user_falsy_field_witness:
  "verify_user_handler
      (JObject [(''externalAccountId'', JString ''EXT-1''), (''email'', JString [])])
      sample_world =
     (\<lparr>status = 400,
       body = JObject [(''error'', JString ''Missing required fields: externalAccountId or email.'')]\<rparr>,
      sample_world)
   \<and> verify_user_handler
      (JObject [(''externalAccountId'', JNumber (Finite 0)),
                (''email'', JString ''ada@example.com'')])
      sample_world =
     (\<lparr>status = 400,
       body = JObject [(''error'', JString ''Missing required fields: externalAccountId or email.'')]\<rparr>,
      sample_world)
   \<and> verify_user_handler
      (JObject [(''externalAccountId'', JString ''EXT-1''), (''email'', JBool False)])
      sample_world =
     (\<lparr>status = 400,
       body = JObject [(''error'', JString ''Missing required fields: externalAccountId or email.'')]\<rparr>,
      sample_world)
   \<and> verify_user_handler
      (JObject [(''externalAccountId'', JString ''EXT-1''), (''email'', JNull)])
      sample_world =
     (\<lparr>status = 400,
       body = JObject [(''error'', JString ''Missing required fields: externalAccountId or email.'')]\<rparr>,
      sample_world)"
proof -
  have present:
    "map_of [(''externalAccountId'', JString ''EXT-1''), (''email'', JString [])] ''email''
       = Some (JString [])"
    "map_of [(''externalAccountId'', JNumber (Finite 0)),
             (''email'', JString ''ada@example.com'')] ''externalAccountId''
       = Some (JNumber (Finite 0))"
    "map_of [(''externalAccountId'', JString ''EXT-1''), (''email'', JBool False)] ''email''
       = Some (JBool False)"
    "map_of [(''externalAccountId'', JString ''EXT-1''), (''email'', JNull)] ''email''
       = Some JNull"
    by simp_all
  have falsy: "\<not> truthy (JString [])" "\<not> truthy (JNumber (Finite 0))"
    "\<not> truthy (JBool False)" "\<not> truthy JNull"
    by simp_all
  have names: "''email'' = ''externalAccountId'' \<or> ''email'' = ''email''"
    "''externalAccountId'' = ''externalAccountId'' \<or> ''externalAccountId'' = ''email''"
    by simp_all
  show ?thesis
    using verify_user_falsy_field [OF present(1) names(1) falsy(1), of sample_world]
      verify_user_falsy_field [OF present(2) names(2) falsy(2), of sample_world]
      verify_user_falsy_field [OF present(3) names(1) falsy(3), of sample_world]
      verify_user_falsy_field [OF present(4) names(1) falsy(4), of sample_world]
    by simp
qed

lemma health_handler_outcome:
  "health_handler w =
     (case run_sql (store w) SelectNow [] of
        Inl e \<Rightarrow>
          (\<lparr>status = 500, body = JObject [(''error'', JString ''Failed to connect to Neon.'')]\<rparr>,
           console_error ''Database connection failed:'' (DatabaseError e)
             (w\<lparr>store := drift w (store w), issued := issued w @ [(SelectNow, [])]\<rparr>))
      | Inr rows \<Rightarrow>
          (case get_prop (first_row rows) ''now'' of
             Inl err \<Rightarrow>
               (\<lparr>status = 500, body = JObject [(''error'', JString ''Failed to connect to Neon.'')]\<rparr>,
                console_error ''Database connection failed:'' err
                  (w\<lparr>store := drift w (store w), issued := issued w @ [(SelectNow, [])]\<rparr>))
           | Inr t \<Rightarrow>
               (\<lparr>status = 200,
                 body = JObject
                   [(''status'', JString ''QuantumLink API is connected to Neon Cloud!''),
                    (''db_time'', t)]\<rparr>,
                w\<lparr>store := drift w (store w), issued := issued w @ [(SelectNow, [])]\<rparr>)))"
  by (simp add: health_handler_def health_try_def pool_query_def res_json_def
      res_status_json_def error_body_def split: sum.splits)





subsection \<open>Health check\<close>

text \<open>
  Claim C6, as amended. For every GET /api/health request: when the query raises, the
  response is 500 and its body is exactly the error "Failed to connect to Neon."; when the
  datastore is reachable, the response is 200 with the fixed \<open>status\<close> string "QuantumLink
  API is connected to Neon Cloud!" and, as \<open>db_time\<close>, the time the query read from the
  datastore.
\<close>

theorem health_policy:
  "(run_sql (store w) SelectNow [] = Inl e \<longrightarrow>
      fst (health_handler w) =
        \<lparr>status = 500, body = JObject [(''error'', JString ''Failed to connect to Neon.'')]\<rparr>)
   \<and> (reachable (store w) \<longrightarrow>
      fst (health_handler w) =
        \<lparr>status = 200,
         body = JObject
           [(''status'', JString ''QuantumLink API is connected to Neon Cloud!''),
            (''db_time'', JDate (clock (store w)))]\<rparr>)"
  by (simp add: health_handler_outcome run_sql_now)

text \<open>The offline store, and the reachable sample store with its clock.\<close>

theorem health_policy_witness:
  "run_sql (store offline_world) SelectNow [] = Inl ConnectionError
   \<and> fst (health_handler offline_world) =
        \<lparr>status = 500, body = JObject [(''error'', JString ''Failed to connect to Neon.'')]\<rparr>
   \<and> reachable (store sample_world)
   \<and> fst (health_handler sample_world) =
        \<lparr>status = 200,
         body = JObject
           [(''status'', JString ''QuantumLink API is connected to Neon Cloud!''),
            (''db_time'', JDate 1767225600000)]\<rparr>"
proof -
  have down: "run_sql (store offline_world) SelectNow [] = Inl ConnectionError"
    by (simp add: run_sql_unreachable offline_world_def)
  have up: "reachable (store sample_world)" "clock (store sample_world) = 1767225600000"
    by (simp_all add: sample_defs)
  show ?thesis
    using down up health_policy [of offline_world ConnectionError]
      health_policy [of sample_world ConnectionError]
    by simp
qed

text \<open>
  The claim as first stated gives the error body as "Failed to connect". On the offline
  store the query raises and the response is 500, with another body.
\<close>

theorem health_error_body_counterexample:
  "run_sql (store offline_world) SelectNow [] = Inl ConnectionError
   \<and> status (fst (health_handler offline_world)) = 500
   \<and> body (fst (health_handler offline_world)) \<noteq> JObject [(''error'', JString ''Failed to connect'')]"
proof -
  have "run_sql (store offline_world) SelectNow [] = Inl ConnectionError"
    by (simp add: run_sql_unreachable offline_world_def)
  then show ?thesis
    by (simp add: health_handler_outcome)
qed

subsection \<open>The lookup parameter is a literal value\<close>




subsection \<open>Repeating a GET request\<close>











subsection \<open>Routing\<close>






lemma app_handler:
  assumes "dispatch matches routes (req_method req) (req_path req) = Some (h, params)"
  shows "app matches req w =
     apfst Some
       (case h of
          Health \<Rightarrow> health_handler w
        | Warranty \<Rightarrow> warranty_handler (req_param params ''serialNumber'') w
        | VerifyUser \<Rightarrow> verify_user_handler (req_body req) w
        | Quote \<Rightarrow> quote_handler (req_param params ''partId'') w)"
  using assms by (cases h) (simp_all add: app_def)



















end
